theory Spec2Isabelle
  imports Main
begin

section \<open>JavaScript values\<close>

text \<open>
  The server is written in TypeScript on top of Express and Zod. Plain JavaScript values
  are modelled by one datatype. An object is the list of its own enumerable properties
  in enumeration order; a well-formed object has distinct keys. Only own properties are
  modelled, not the prototype of an object. Numbers are integers that a double holds
  exactly (status codes, counters), so below \<open>2^53\<close> in absolute value; strings are lists
  of 8-bit characters.
\<close>

datatype jsval =
    JUndefined
  | JNull
  | JBool bool
  | JNum int
  | JStr string
  | JArr "jsval list"
  | JObj "(string \<times> jsval) list"

type_synonym object = "(string \<times> jsval) list"

text \<open>Exceptions raised while routes are registered and bound.\<close>

datatype exn = TypeError | SyntaxError

text \<open>ToBoolean, as used by \<^verbatim>\<open>!x\<close>, \<^verbatim>\<open>a ? b : c\<close> and \<^verbatim>\<open>a || b\<close>.\<close>

fun truthy :: "jsval \<Rightarrow> bool" where
  "truthy JUndefined = False"
| "truthy JNull = False"
| "truthy (JBool b) = b"
| "truthy (JNum n) = (n \<noteq> 0)"
| "truthy (JStr s) = (s \<noteq> [])"
| "truthy (JArr _) = True"
| "truthy (JObj _) = True"

text \<open>
  Reading a property: \<^verbatim>\<open>o[key]\<close> is \<^verbatim>\<open>undefined\<close> when the object has no such property.
  Only own properties are modelled, not the members that every object inherits from
  \<^verbatim>\<open>Object.prototype\<close>.
\<close>

definition get_prop :: "object \<Rightarrow> string \<Rightarrow> jsval" where
  "get_prop ps key = (case map_of ps key of None \<Rightarrow> JUndefined | Some v \<Rightarrow> v)"

text \<open>Decimal rendering of a number, as in \<^verbatim>\<open>String(n)\<close> and in array index keys.\<close>

fun show_nat :: "nat \<Rightarrow> string" where
  "show_nat n =
     (if n < 10 then [char_of (48 + n)]
      else show_nat (n div 10) @ [char_of (48 + n mod 10)])"

definition show_int :: "int \<Rightarrow> string" where
  "show_int i = (if i < 0 then CHR ''-'' # show_nat (nat (- i)) else show_nat (nat i))"

definition is_digit :: "char \<Rightarrow> bool" where
  "is_digit c = (48 \<le> (of_char c :: nat) \<and> (of_char c :: nat) \<le> 57)"

definition decimal_value :: "string \<Rightarrow> int" where
  "decimal_value s = foldl (\<lambda>n c. 10 * n + ((of_char c :: int) - 48)) 0 s"

text \<open>
  A property key is an array index when it is the canonical decimal form of an integer
  below \<open>2^32 - 1\<close>. Such keys are enumerated first, in ascending numeric order; all
  other keys follow in the order in which they were created.
\<close>

definition is_array_index :: "string \<Rightarrow> bool" where
  "is_array_index k =
     (k \<noteq> [] \<and> list_all is_digit k \<and> (k = ''0'' \<or> hd k \<noteq> CHR ''0'') \<and>
      decimal_value k < 4294967295)"

definition goes_before :: "string \<Rightarrow> string \<Rightarrow> bool" where
  "goes_before k k' =
     (is_array_index k \<and> (\<not> is_array_index k' \<or> decimal_value k < decimal_value k'))"

text \<open>Defining or overwriting an own property of an object.\<close>

fun obj_set :: "string \<Rightarrow> jsval \<Rightarrow> object \<Rightarrow> object" where
  "obj_set k v [] = [(k, v)]"
| "obj_set k v ((k', v') # ps) =
     (if k = k' then (k, v) # ps
      else if goes_before k k' then (k, v) # (k', v') # ps
      else (k', v') # obj_set k v ps)"

text \<open>Object spread \<^verbatim>\<open>{...base, ...extra}\<close>: the properties of \<open>extra\<close> are defined in turn.\<close>

definition spread :: "object \<Rightarrow> object \<Rightarrow> object" where
  "spread base extra = foldl (\<lambda>acc (k, v). obj_set k v acc) base extra"

text \<open>
  \<^verbatim>\<open>Object.entries(x)\<close>: the own properties of an object; index and element for an array;
  index and one-character string for a string; nothing for a number or boolean; a
  TypeError for \<^verbatim>\<open>null\<close> and \<^verbatim>\<open>undefined\<close>. \<^verbatim>\<open>Object.keys\<close> is its first projection.
\<close>

fun object_entries :: "jsval \<Rightarrow> exn + object" where
  "object_entries JUndefined = Inl TypeError"
| "object_entries JNull = Inl TypeError"
| "object_entries (JBool _) = Inr []"
| "object_entries (JNum _) = Inr []"
| "object_entries (JStr s) = Inr (zip (map show_nat [0..<length s]) (map (\<lambda>c. JStr [c]) s))"
| "object_entries (JArr vs) = Inr (zip (map show_nat [0..<length vs]) vs)"
| "object_entries (JObj ps) = Inr ps"

definition intercalate :: "string \<Rightarrow> string list \<Rightarrow> string" where
  "intercalate sep xs = (case xs of [] \<Rightarrow> [] | y # ys \<Rightarrow> y @ concat (map (\<lambda>z. sep @ z) ys))"

text \<open>\<^verbatim>\<open>String(x)\<close> for a value thrown by a handler that is not an Error.\<close>

fun js_String :: "jsval \<Rightarrow> string" where
  "js_String JUndefined = ''undefined''"
| "js_String JNull = ''null''"
| "js_String (JBool b) = (if b then ''true'' else ''false'')"
| "js_String (JNum n) = show_int n"
| "js_String (JStr s) = s"
| "js_String (JArr vs) =
     intercalate '',''
       (map (\<lambda>v. if v = JUndefined \<or> v = JNull then [] else js_String v) vs)"
| "js_String (JObj _) = ''[object Object]''"

section \<open>String primitives\<close>

text \<open>The class \<^verbatim>\<open>\w\<close> of regular expressions: letters, digits and the underscore.\<close>

definition word_char :: "char \<Rightarrow> bool" where
  "word_char c =
     (let n = (of_char c :: nat)
      in (48 \<le> n \<and> n \<le> 57) \<or> (65 \<le> n \<and> n \<le> 90) \<or> n = 95 \<or> (97 \<le> n \<and> n \<le> 122))"

text \<open>
  The first occurrence of a non-empty pattern in a string: the text before it and the
  text after it.
\<close>

fun find_sub :: "string \<Rightarrow> string \<Rightarrow> (string \<times> string) option" where
  "find_sub pat [] = None"
| "find_sub pat (c # cs) =
     (if take (length pat) (c # cs) = pat then Some ([], drop (length pat) (c # cs))
      else map_option (\<lambda>(b, a). (c # b, a)) (find_sub pat cs))"

text \<open>\<^verbatim>\<open>s.includes(pat)\<close>.\<close>

definition str_includes :: "string \<Rightarrow> string \<Rightarrow> bool" where
  "str_includes s pat = (find_sub pat s \<noteq> None)"

text \<open>
  \<^verbatim>\<open>s.split(pat)[1]\<close>: the piece between the first and the second occurrence of the
  separator, \<^verbatim>\<open>undefined\<close> (here \<open>None\<close>) when the separator does not occur.
\<close>

definition split_1 :: "string \<Rightarrow> string \<Rightarrow> string option" where
  "split_1 s pat =
     (case find_sub pat s of
        None \<Rightarrow> None
      | Some (_, a) \<Rightarrow> Some (case find_sub pat a of None \<Rightarrow> a | Some (b, _) \<Rightarrow> b))"

text \<open>\<^verbatim>\<open>s.replace(pat, rep)\<close> with a string pattern: only the first occurrence.\<close>

definition replace_first :: "string \<Rightarrow> string \<Rightarrow> string \<Rightarrow> string" where
  "replace_first s pat rep =
     (case find_sub pat s of None \<Rightarrow> s | Some (b, a) \<Rightarrow> b @ rep @ a)"

text \<open>
  \<^verbatim>\<open>s.replace(/(\w+):/g, '"$1":')\<close>: every maximal run of word characters that is
  directly followed by a colon is put in double quotes.
\<close>

function quote_keys :: "string \<Rightarrow> string" where
  "quote_keys [] = []"
| "quote_keys (c # cs) =
     (if word_char c then
        (let w = c # takeWhile word_char cs; r = dropWhile word_char cs
         in case r of
              [] \<Rightarrow> w
            | d # r' \<Rightarrow>
                if d = CHR '':'' then [CHR 0x22] @ w @ [CHR 0x22, CHR '':''] @ quote_keys r'
                else w @ d # quote_keys r')
      else c # quote_keys cs)"
  by pat_completeness auto
termination
proof (relation "measure length")
  show "wf (measure length)" by simp
next
  fix c cs w r d r'
  assume "r = dropWhile word_char cs" and "r = d # r'"
  then have "length (d # r') \<le> length cs"
    by (metis length_dropWhile_le)
  then show "(r', c # cs) \<in> measure length" by simp
next
  fix c cs w r d r'
  assume "r = dropWhile word_char cs" and "r = d # r'"
  then have "length (d # r') \<le> length cs"
    by (metis length_dropWhile_le)
  then show "(r', c # cs) \<in> measure length" by simp
next
  fix c :: char and cs :: string
  show "(cs, c # cs) \<in> measure length" by simp
qed

section \<open>Path-parameter extractor\<close>

text \<open>
  \<^verbatim>\<open>path.match(/:(\w+)/g)\<close> followed by \<^verbatim>\<open>substring(1)\<close>: the names that directly follow
  a colon, from left to right.
\<close>

function path_matches :: "string \<Rightarrow> string list" where
  "path_matches [] = []"
| "path_matches (c # cs) =
     (if c = CHR '':'' \<and> takeWhile word_char cs \<noteq> []
      then takeWhile word_char cs # path_matches (dropWhile word_char cs)
      else path_matches cs)"
  by pat_completeness auto
termination
proof (relation "measure length")
  show "wf (measure length)" by simp
next
  fix c :: char and cs :: string
  have "length (dropWhile word_char cs) \<le> length cs"
    by (rule length_dropWhile_le)
  then show "(dropWhile word_char cs, c # cs) \<in> measure length" by simp
next
  fix c :: char and cs :: string
  show "(cs, c # cs) \<in> measure length" by simp
qed

text \<open>
  \<^verbatim>\<open>createParamsObject\<close>: every name becomes a property with the empty string as its
  value. The properties are assigned on an ordinary object, so the name \<^verbatim>\<open>__proto__\<close>
  reaches the prototype setter, which ignores a string, and creates no property.
\<close>

definition createParamsObject :: "string \<Rightarrow> object" where
  "createParamsObject path =
     foldl (\<lambda>paramsObject param.
              if param = ''__proto__'' then paramsObject
              else obj_set param (JStr []) paramsObject)
       [] (path_matches path)"

text \<open>
  \<^verbatim>\<open>createZodSchema\<close> builds an object schema with a nullable string for every key of
  the parameter object and returns \<^verbatim>\<open>schema.parse(paramsArray)\<close>: the schema applied to
  the placeholder object itself. Every placeholder value is the empty string, which a
  nullable string accepts, so the result is an object with the same keys and values;
  the schema itself is dropped.
\<close>

definition createZodSchema :: "string \<Rightarrow> object" where
  "createZodSchema path =
     (let paramsArray = createParamsObject path
      in map (\<lambda>key. (key, get_prop paramsArray key)) (map fst paramsArray))"

section \<open>Schema shape converter\<close>

text \<open>
  The converter distinguishes four classes of schema by \<^verbatim>\<open>instanceof\<close>. Everything else
  takes the last branch: another kind of schema (named by its class, such as
  \<^verbatim>\<open>ZodBoolean\<close> or \<^verbatim>\<open>ZodOptional\<close>) or a value that is no schema at all. The shape of an
  object schema is the list of its fields in enumeration order, which is the order of the
  \<^verbatim>\<open>for ... in\<close> loop; the loop fills a fresh object in that same order by assignment.
  An assignment to the name \<^verbatim>\<open>__proto__\<close> reaches the prototype setter and creates no
  property, so a field of that name leaves no trace among the properties of the result.
\<close>

datatype zod =
    ZodString
  | ZodNumber
  | ZodArray zod
  | ZodObject "(string \<times> zod) list"
  | ZodOther string
  | Plain jsval

fun zodToObject :: "zod \<Rightarrow> jsval" where
  "zodToObject ZodString = JStr ''string''"
| "zodToObject ZodNumber = JStr ''number''"
| "zodToObject (ZodArray t) = JArr [zodToObject t]"
| "zodToObject (ZodObject shape) =
     JObj (map (\<lambda>(key, s). (key, zodToObject s))
             (filter (\<lambda>(key, s). key \<noteq> ''__proto__'') shape))"
| "zodToObject _ = JStr ''unknown''"

fun zodToSwagger :: "zod \<Rightarrow> jsval" where
  "zodToSwagger ZodString = JObj [(''type'', JStr ''string'')]"
| "zodToSwagger ZodNumber = JObj [(''type'', JStr ''number'')]"
| "zodToSwagger (ZodArray t) = JObj [(''type'', JStr ''array''), (''items'', zodToSwagger t)]"
| "zodToSwagger (ZodObject shape) =
     JObj [(''type'', JStr ''object''),
           (''properties'',
              JObj (map (\<lambda>(key, s). (key, zodToSwagger s))
                      (filter (\<lambda>(key, s). key \<noteq> ''__proto__'') shape)))]"
| "zodToSwagger _ = JObj [(''type'', JStr ''unknown'')]"

text \<open>
  A documentation shape: \<^verbatim>\<open>{type}\<close> for a leaf, \<^verbatim>\<open>{type: 'array', items}\<close> with a shape
  as items, \<^verbatim>\<open>{type: 'object', properties}\<close> with a shape for every property.
\<close>

fun doc_shape :: "jsval \<Rightarrow> bool" where
  "doc_shape (JObj [(t, JStr ty)]) =
     (t = ''type'' \<and> (ty = ''string'' \<or> ty = ''number'' \<or> ty = ''unknown''))"
| "doc_shape (JObj [(t, JStr ty), (i, JObj props)]) =
     (t = ''type'' \<and>
      ((ty = ''array'' \<and> i = ''items'' \<and> doc_shape (JObj props)) \<or>
       (ty = ''object'' \<and> i = ''properties'' \<and> list_all (\<lambda>(k, d). doc_shape d) props)))"
| "doc_shape _ = False"

section \<open>Errors and responses\<close>

text \<open>
  A value that a validation or a handler throws: a \<^verbatim>\<open>ZodError\<close> with its issues and
  message, an \<^verbatim>\<open>HttpError\<close> with its declared status code and message, any other
  \<^verbatim>\<open>Error\<close> with its message, or a value that is not an \<^verbatim>\<open>Error\<close>.
\<close>

datatype zod_issue = ZodIssue (issue_path: "jsval list") (issue_message: string)

datatype js_error =
    ZodError "zod_issue list" string
  | HttpError int string
  | Error string
  | Thrown jsval

fun instanceof_Error :: "js_error \<Rightarrow> bool" where
  "instanceof_Error (Thrown _) = False"
| "instanceof_Error _ = True"

fun error_message :: "js_error \<Rightarrow> string" where
  "error_message (ZodError _ m) = m"
| "error_message (HttpError _ m) = m"
| "error_message (Error m) = m"
| "error_message (Thrown _) = []"

text \<open>
  What the surroundings provide: whether \<^verbatim>\<open>NODE_ENV\<close> is \<^verbatim>\<open>development\<close>, the stack trace
  the runtime recorded in an error, the message that the library function
  \<^verbatim>\<open>fromZodError\<close> builds from the issues of a \<^verbatim>\<open>ZodError\<close>, and the page with which
  Express itself answers an error that no error middleware has answered.
\<close>

record env =
  development :: bool
  stack :: "js_error \<Rightarrow> string"
  fromZodError :: "zod_issue list \<Rightarrow> string"
  final_page :: "js_error \<Rightarrow> string"

text \<open>
  A request as the gate sees it, which is also the context handed to the handler: the
  parameters, body and query, and the outcome of the freshness test of Express
  (\<^verbatim>\<open>req.fresh\<close>: the request is a \<^verbatim>\<open>GET\<close> whose cache validators match the response that is
  about to be sent). Requests have the method of the route that serves them; a \<^verbatim>\<open>HEAD\<close>
  request to a \<^verbatim>\<open>GET\<close> route is not modelled.

  The source uses the names \<^verbatim>\<open>params\<close>, \<^verbatim>\<open>body\<close>, \<^verbatim>\<open>query\<close>, \<^verbatim>\<open>path\<close> and \<^verbatim>\<open>method\<close> for
  fields of several types. Here the fields of a request carry the prefix \<open>req\<close>, those of
  a documentation entry the prefix \<open>sw\<close>, those of a documentation detail that would
  clash the prefix \<open>detail\<close>, and the method of a route is \<open>http_method\<close>.
\<close>

record request =
  req_params :: object
  req_body :: jsval
  req_query :: jsval
  req_fresh :: bool

text \<open>
  The response object of one request: its status code, which the transport initialises
  to 200, and the body once a response has been sent. A response that was sent without
  a body has the body \<^verbatim>\<open>undefined\<close>.
\<close>

record res =
  statusCode :: int
  sent :: "jsval option"

definition new_res :: res where
  "new_res = \<lparr>statusCode = 200, sent = None\<rparr>"

text \<open>
  \<^verbatim>\<open>res.status(code)\<close> stores the code without a check. Once the response has been sent
  the status that went out stands.
\<close>

definition res_status :: "int \<Rightarrow> res \<Rightarrow> res" where
  "res_status code r = (if sent r = None then r\<lparr>statusCode := code\<rparr> else r)"

text \<open>The status codes for which the transport sends no body.\<close>

definition strips_body :: "int \<Rightarrow> bool" where
  "strips_body status =
     (status = 204 \<or> status = 205 \<or> status = 304 \<or> (100 \<le> status \<and> status \<le> 199))"

text \<open>
  \<^verbatim>\<open>res.send(data)\<close> and \<^verbatim>\<open>res.json(data)\<close> for an object. Setting the headers of a response
  that has been sent throws. A fresh request turns a status 2xx into 304. Writing the
  head throws for a status code outside 100..999, and nothing is sent then.
\<close>

definition res_send :: "request \<Rightarrow> jsval \<Rightarrow> res \<Rightarrow> js_error + res" where
  "res_send req data r =
     (if sent r \<noteq> None
      then Inl (Error ''Cannot set headers after they are sent to the client'')
      else
        (let status =
               (if req_fresh req \<and>
                   ((200 \<le> statusCode r \<and> statusCode r < 300) \<or> statusCode r = 304)
                then 304 else statusCode r)
         in if status < 100 \<or> 999 < status
            then Inl (Error (''Invalid status code: '' @ show_int status))
            else Inr \<lparr>statusCode = status,
                      sent = Some (if strips_body status then JUndefined else data)\<rparr>))"

text \<open>
  What a handler of Express has done when it returns: it has sent a response, it has
  passed an error to \<^verbatim>\<open>next\<close> (or has thrown it), or it has done neither.
\<close>

datatype reply = Replied res | NextError js_error res | NoReply res

definition globalErrorHandler :: "env \<Rightarrow> js_error \<Rightarrow> request \<Rightarrow> res \<Rightarrow> reply" where
  "globalErrorHandler e error req response =
     (let statusCode = (case error of HttpError code _ \<Rightarrow> code | _ \<Rightarrow> 500);
          message =
            (case error of
               Thrown v \<Rightarrow> ''An unknown error occurred, '' @ js_String v
             | _ \<Rightarrow> error_message error);
          statusCode =
            (if instanceof_Error error \<and> str_includes message ''not found'' then 404
             else statusCode);
          data =
            JObj [(''statusCode'', JNum statusCode),
                  (''message'', JStr message),
                  (''success'', JBool False),
                  (''data'', JNull),
                  (''traceStack'',
                     if development e \<and> instanceof_Error error then JStr (stack e error)
                     else JUndefined)]
      in case res_send req data (res_status statusCode response) of
           Inr r \<Rightarrow> Replied r
         | Inl thrown \<Rightarrow> NextError thrown (res_status statusCode response))"

text \<open>
  The final handler of Express, which receives an error that the last error middleware
  has thrown. When the response has been sent already it can only close the connection.
  Otherwise it answers with a page of its own, under the status of the error or of the
  response when that is between 400 and 599, and under 500 otherwise.
\<close>

definition finalhandler :: "env \<Rightarrow> js_error \<Rightarrow> res \<Rightarrow> res" where
  "finalhandler e error r =
     (if sent r \<noteq> None then r
      else
        \<lparr>statusCode =
           (case error of
              HttpError code _ \<Rightarrow>
                if 400 \<le> code \<and> code \<le> 599 then code
                else if 400 \<le> statusCode r \<and> statusCode r \<le> 599 then statusCode r
                else 500
            | _ \<Rightarrow> if 400 \<le> statusCode r \<and> statusCode r \<le> 599 then statusCode r else 500),
         sent = Some (JStr (final_page e error))\<rparr>)"

section \<open>Routes\<close>

datatype HttpMethod = GET | POST | PUT | PATCH | DELETE

text \<open>
  A handler is known by its source text (\<^verbatim>\<open>handler.toString()\<close>) and by what it does for a
  context. Its promise resolves with a response object, rejects with a thrown value (a
  \<^verbatim>\<open>throw\<close> inside an async function is a rejection), or stays pending; before that the
  handler may write to the response object of the context (\<^verbatim>\<open>ctx.res\<close>): set the status,
  or send a response of its own, which is also where passing control on with
  \<^verbatim>\<open>ctx.next\<close> ends.
\<close>

datatype outcome =
    Resolves object
  | Rejects js_error
  | Pending
  | WritesThen "res \<Rightarrow> res" outcome

text \<open>The response object after the writes of the handler, and the way its promise settles.\<close>

fun written :: "outcome \<Rightarrow> res \<Rightarrow> res" where
  "written (WritesThen w rest) r = written rest (w r)"
| "written _ r = r"

fun settles :: "outcome \<Rightarrow> outcome" where
  "settles (WritesThen w rest) = settles rest"
| "settles out = out"

record handler =
  source :: string
  run :: "request \<Rightarrow> outcome"

text \<open>
  A schema is used in two ways: the converter looks at its kind, and the gate calls
  \<^verbatim>\<open>parse\<close>, of which only the thrown error, if any, is observed.
\<close>

record schema =
  kind :: zod
  parse :: "jsval \<Rightarrow> js_error option"

record IParameters =
  param_in :: string
  param_name :: string
  param_schema :: jsval
  param_required :: bool

record SwaggerDetail =
  tags :: "string list option"
  summary :: "string option"
  description :: "string option"
  detail_query :: "IParameters list option"
  detail_body :: "jsval option"
  detail_response :: "jsval option"
  detail_params :: "IParameters list option"

record schemas =
  params :: "schema option"
  body :: "schema option"
  query :: "schema option"
  middleware :: "string option"
  detail :: "SwaggerDetail option"

record route =
  path :: string
  http_method :: HttpMethod
  handler :: handler
  schemas :: "schemas option"

section \<open>Request pipeline\<close>

text \<open>
  Throwing is modelled by an optional error: \<open>None\<close> means that the statement completed.
  Statements in sequence stop at the first error.
\<close>

definition parse_with :: "schema option \<Rightarrow> jsval \<Rightarrow> js_error option" where
  "parse_with s v = (case s of None \<Rightarrow> None | Some sc \<Rightarrow> parse sc v)"

definition and_then :: "js_error option \<Rightarrow> js_error option \<Rightarrow> js_error option" where
  "and_then first second = (case first of Some e \<Rightarrow> Some e | None \<Rightarrow> second)"

definition validateRequest :: "request \<Rightarrow> schemas option \<Rightarrow> js_error option" where
  "validateRequest req ss =
     (case ss of
        None \<Rightarrow> None
      | Some s \<Rightarrow>
          and_then (parse_with (params s) (JObj (req_params req)))
            (and_then (parse_with (body s) (req_body req))
               (parse_with (query s) (req_query req))))"

fun validateParams :: "request \<Rightarrow> object \<Rightarrow> js_error option" where
  "validateParams req [] = None"
| "validateParams req ((key, _) # schemaObject) =
     (if \<not> truthy (get_prop (req_params req) key)
      then Some (Error (''Parameter '' @ [CHR 0x27] @ key @ [CHR 0x27] @ '' is required''))
      else validateParams req schemaObject)"

text \<open>
  \<^verbatim>\<open>handleError\<close> runs in the \<^verbatim>\<open>catch\<close> of the bound handler. Should its own \<^verbatim>\<open>send\<close> throw,
  nothing catches that and the request stays unanswered.
\<close>

definition handleError :: "env \<Rightarrow> js_error \<Rightarrow> request \<Rightarrow> res \<Rightarrow> reply" where
  "handleError e error req r =
     (case error of
        ZodError issues _ \<Rightarrow>
          (case res_send req
                  (JObj [(''success'', JBool False),
                         (''message'',
                            JStr (map (\<lambda>c. if c = CHR 0x22 then CHR 0x27 else c)
                                    (fromZodError e issues))),
                         (''details'',
                            JArr (map (\<lambda>err. JObj [(''path'', JArr (issue_path err)),
                                                      (''message'', JStr (issue_message err))])
                                    issues))])
                  (res_status 400 r) of
             Inr r' \<Rightarrow> Replied r'
           | Inl thrown \<Rightarrow> NoReply (res_status 400 r))
      | Thrown _ \<Rightarrow> NextError error r
      | _ \<Rightarrow>
          (case res_send req
                  (JObj [(''success'', JBool False),
                         (''message'', JStr ''Internal server error''),
                         (''traceStack'', JStr (stack e error))])
                  (res_status 500 r) of
             Inr r' \<Rightarrow> Replied r'
           | Inl thrown \<Rightarrow> NoReply (res_status 500 r)))"

text \<open>
  \<^verbatim>\<open>preRequest\<close> wraps the handler in \<^verbatim>\<open>catchAsync\<close>: the handler runs inside an async
  function, so whatever it throws rejects that function's promise and is passed to
  \<^verbatim>\<open>next\<close>; it never reaches the \<^verbatim>\<open>catch\<close> of \<^verbatim>\<open>createHandler\<close>. The same holds for an
  error that \<^verbatim>\<open>res.send\<close> throws after the handler has resolved. The status of the
  response is not set here.
\<close>

definition preRequest :: "handler \<Rightarrow> request \<Rightarrow> res \<Rightarrow> reply" where
  "preRequest h req r =
     (case settles (run h req) of
        Resolves result \<Rightarrow>
          (case res_send req
                  (JObj (spread [(''success'', JBool True),
                                 (''message'', JStr ''Request successful'')] result))
                  (written (run h req) r) of
             Inr r' \<Rightarrow> Replied r'
           | Inl thrown \<Rightarrow> NextError thrown (written (run h req) r))
      | Rejects err \<Rightarrow> NextError err (written (run h req) r)
      | _ \<Rightarrow> NoReply (written (run h req) r))"

definition createHandler ::
  "env \<Rightarrow> handler \<Rightarrow> schemas option \<Rightarrow> object \<Rightarrow> request \<Rightarrow> res \<Rightarrow> reply" where
  "createHandler e h ss schemaObject req r =
     (case and_then (validateRequest req ss)
             (if length (map fst schemaObject) \<noteq> 0 then validateParams req schemaObject
              else None) of
        Some error \<Rightarrow> handleError e error req r
      | None \<Rightarrow> preRequest h req r)"

text \<open>
  Express takes the argument of \<^verbatim>\<open>next\<close> for an error only when it is truthy and is
  neither \<^verbatim>\<open>'route'\<close> nor \<^verbatim>\<open>'router'\<close>; otherwise the request passes on to the layers behind
  the route.
\<close>

fun passes_on :: "js_error \<Rightarrow> bool" where
  "passes_on (Thrown v) = (v = JStr ''route'' \<or> v = JStr ''router'' \<or> \<not> truthy v)"
| "passes_on _ = False"

text \<open>
  A request dispatched to a bound route: \<^verbatim>\<open>register\<close> and \<^verbatim>\<open>listen\<close> bind
  \<^verbatim>\<open>createHandler(handler, schemas, createZodSchema(path))\<close>, and an error passed to
  \<^verbatim>\<open>next\<close> arrives at the error middleware that \<^verbatim>\<open>listen\<close> installs last,
  \<^verbatim>\<open>globalErrorHandler\<close>; what that one throws goes to the final handler. The result is
  the response object at the end of this route; the layers behind the route, to which
  a request may pass on, are not followed. Middleware in front of the route is taken to
  pass the request on unchanged.
\<close>

definition serve :: "env \<Rightarrow> route \<Rightarrow> request \<Rightarrow> res" where
  "serve e rt req =
     (case createHandler e (handler rt) (schemas rt) (createZodSchema (path rt)) req new_res of
        Replied r \<Rightarrow> r
      | NextError error r \<Rightarrow>
          if passes_on error then r
          else
            (case globalErrorHandler e error req r of
               Replied r' \<Rightarrow> r'
             | NextError thrown r' \<Rightarrow> finalhandler e thrown r'
             | NoReply r' \<Rightarrow> r')
      | NoReply r \<Rightarrow> r)"

section \<open>Route registry\<close>

record AppSwagger =
  sw_path :: string
  sw_method :: HttpMethod
  sw_detail :: "SwaggerDetail option"
  sw_body :: jsval
  sw_query :: jsval
  sw_params :: jsval
  sw_response :: jsval

text \<open>
  A layer of an Express application or router: a middleware function (known by its
  name), a bound route with the names of its own middleware, or a router mounted under a
  prefix, with the layers it holds when it is mounted. Express mounts the router object
  itself: a route that is bound on it after the mount is served as well, which the
  layers recorded here do not follow.
\<close>

datatype layer =
    Use string
  | Bound HttpMethod string "string list"
  | Mounted string "layer list"

fun layer_name :: "layer \<Rightarrow> string" where
  "layer_name (Use n) = n"
| "layer_name (Bound _ _ _) = ''bound dispatch''"
| "layer_name (Mounted _ _) = ''router''"

text \<open>
  The classes: \<^verbatim>\<open>AppRouter\<close> and \<^verbatim>\<open>AppServer\<close> extend \<^verbatim>\<open>BaseRouter\<close>. The sub-router owns
  an Express router, the server an Express application; \<open>assembled\<close> records the
  sequences of entries on which the Documentation Assembler has been called.
\<close>

record BaseRouter =
  routes :: "route list"
  swaggerPath :: "AppSwagger list"

record AppRouter = BaseRouter +
  router_instance :: "layer list"

record AppServer = BaseRouter +
  app :: "layer list"
  assembled :: "AppSwagger list list"

definition addRoute ::
  "HttpMethod \<Rightarrow> string \<Rightarrow> handler \<Rightarrow> schemas option \<Rightarrow>
     'a BaseRouter_scheme \<Rightarrow> 'a BaseRouter_scheme" where
  "addRoute m p h ss r =
     r\<lparr>routes := routes r @ [\<lparr>path = p, http_method = m, handler = h, schemas = ss\<rparr>]\<rparr>"

definition get ::
  "string \<Rightarrow> handler \<Rightarrow> schemas option \<Rightarrow> 'a BaseRouter_scheme \<Rightarrow> 'a BaseRouter_scheme" where
  "get p h ss r = addRoute GET p h ss r"

definition post ::
  "string \<Rightarrow> handler \<Rightarrow> schemas option \<Rightarrow> 'a BaseRouter_scheme \<Rightarrow> 'a BaseRouter_scheme" where
  "post p h ss r = addRoute POST p h ss r"

definition put ::
  "string \<Rightarrow> handler \<Rightarrow> schemas option \<Rightarrow> 'a BaseRouter_scheme \<Rightarrow> 'a BaseRouter_scheme" where
  "put p h ss r = addRoute PUT p h ss r"

definition patch ::
  "string \<Rightarrow> handler \<Rightarrow> schemas option \<Rightarrow> 'a BaseRouter_scheme \<Rightarrow> 'a BaseRouter_scheme" where
  "patch p h ss r = addRoute PATCH p h ss r"

definition delete ::
  "string \<Rightarrow> handler \<Rightarrow> schemas option \<Rightarrow> 'a BaseRouter_scheme \<Rightarrow> 'a BaseRouter_scheme" where
  "delete p h ss r = addRoute DELETE p h ss r"

text \<open>
  The text from which the response shape is inferred. When the source of the handler does
  not contain \<^verbatim>\<open>return\<close>, \<^verbatim>\<open>split('return')[1]\<close> is \<^verbatim>\<open>undefined\<close> and the call of
  \<^verbatim>\<open>replace\<close> on it raises a TypeError.
\<close>

definition jsonString :: "handler \<Rightarrow> exn + string" where
  "jsonString h =
     (case split_1 (source h) ''return'' of
        None \<Rightarrow> Inl TypeError
      | Some piece \<Rightarrow> Inr (quote_keys (replace_first piece ''}}'' ''}'')))"

text \<open>
  \<^verbatim>\<open>JSON.parse\<close> belongs to the language, not to this program: it is a parameter of the
  registry, \<open>None\<close> standing for the SyntaxError it raises on a text that is not JSON.
\<close>

definition parseJson :: "(string \<Rightarrow> jsval option) \<Rightarrow> string \<Rightarrow> jsval" where
  "parseJson JSON_parse str = (case JSON_parse str of Some v \<Rightarrow> v | None \<Rightarrow> JObj [])"

definition example_of :: "schema option \<Rightarrow> jsval" where
  "example_of s = (case s of Some sc \<Rightarrow> zodToObject (kind sc) | None \<Rightarrow> JObj [])"

definition swagger_entry :: "string \<Rightarrow> route \<Rightarrow> jsval \<Rightarrow> AppSwagger" where
  "swagger_entry p r response =
     \<lparr>sw_path = p,
      sw_method = http_method r,
      sw_detail = (case schemas r of None \<Rightarrow> None | Some s \<Rightarrow> detail s),
      sw_body = example_of (case schemas r of None \<Rightarrow> None | Some s \<Rightarrow> body s),
      sw_query = example_of (case schemas r of None \<Rightarrow> None | Some s \<Rightarrow> query s),
      sw_params = example_of (case schemas r of None \<Rightarrow> None | Some s \<Rightarrow> params s),
      sw_response = response\<rparr>"

text \<open>The entry that \<^verbatim>\<open>router\<close> builds for a route of the sub-router.\<close>

definition router_entry ::
  "(string \<Rightarrow> jsval option) \<Rightarrow> string \<Rightarrow> route \<Rightarrow> exn + AppSwagger" where
  "router_entry JSON_parse prefix r =
     (case jsonString (handler r) of
        Inl x \<Rightarrow> Inl x
      | Inr str \<Rightarrow> Inr (swagger_entry (prefix @ path r) r (parseJson JSON_parse str)))"

text \<open>The entry that \<^verbatim>\<open>listen\<close> builds for a route declared on the server itself.\<close>

definition listen_entry :: "(string \<Rightarrow> jsval option) \<Rightarrow> route \<Rightarrow> exn + AppSwagger" where
  "listen_entry JSON_parse r =
     (case jsonString (handler r) of
        Inl x \<Rightarrow> Inl x
      | Inr str \<Rightarrow>
          (case JSON_parse str of
             None \<Rightarrow> Inl SyntaxError
           | Some response \<Rightarrow> Inr (swagger_entry (path r) r response)))"

text \<open>A \<^verbatim>\<open>forEach\<close> whose body may raise: the first exception ends the loop.\<close>

fun forEach :: "('a \<Rightarrow> exn + 'b) \<Rightarrow> 'a list \<Rightarrow> exn + 'b list" where
  "forEach f [] = Inr []"
| "forEach f (x # xs) =
     (case f x of
        Inl e \<Rightarrow> Inl e
      | Inr y \<Rightarrow> (case forEach f xs of Inl e \<Rightarrow> Inl e | Inr ys \<Rightarrow> Inr (y # ys)))"

definition bind_route :: "route \<Rightarrow> layer" where
  "bind_route r =
     Bound (http_method r) (path r)
       (case schemas r of
          None \<Rightarrow> []
        | Some s \<Rightarrow> (case middleware s of None \<Rightarrow> [] | Some m \<Rightarrow> [m]))"

text \<open>
  \<^verbatim>\<open>AppRouter.register\<close> binds every route of the sub-router on its Express router and
  returns that router. The list of routes is left as it is.
\<close>

definition register :: "AppRouter \<Rightarrow> AppRouter" where
  "register r = r\<lparr>router_instance := router_instance r @ map bind_route (routes r)\<rparr>"

text \<open>
  \<^verbatim>\<open>AppServer.router\<close>: one entry for every route of the sub-router, the sub-router
  registered and mounted under the prefix behind the given middleware, and then
  \<^verbatim>\<open>this.routes.length = 0\<close>, where \<^verbatim>\<open>this\<close> is the server. An exception leaves the
  call; the result is then the exception alone.
\<close>

definition router ::
  "(string \<Rightarrow> jsval option) \<Rightarrow> string \<Rightarrow> AppRouter \<Rightarrow> string list \<Rightarrow> AppServer \<Rightarrow>
     exn + (AppServer \<times> AppRouter)" where
  "router JSON_parse prefix sub mws srv =
     (case forEach (router_entry JSON_parse prefix) (routes sub) of
        Inl x \<Rightarrow> Inl x
      | Inr entries \<Rightarrow>
          (let sub' = register sub
           in Inr (srv\<lparr>routes := [],
                       swaggerPath := swaggerPath srv @ entries,
                       app := app srv @ map Use mws @ [Mounted prefix (router_instance sub')]\<rparr>,
                   sub')))"

definition use :: "string list \<Rightarrow> AppServer \<Rightarrow> AppServer" where
  "use mws srv = srv\<lparr>app := app srv @ map Use mws\<rparr>"

text \<open>The number of layers that trigger the Documentation Assembler.\<close>

definition trigger_count :: "layer list \<Rightarrow> nat" where
  "trigger_count layers = length (filter (\<lambda>l. layer_name l = ''SwaggerInitUi'') layers)"

text \<open>
  \<^verbatim>\<open>AppServer.listen\<close>, up to the point where the server starts: one entry and one binding
  for every route declared on the server; for every layer of the application named
  \<^verbatim>\<open>SwaggerInitUi\<close> a call of the Documentation Assembler on the accumulated entries (the
  layers that the \<^verbatim>\<open>forEach\<close> itself adds are not visited); both lists cleared; the
  fallback for unknown URLs and the global error handler installed.
\<close>

definition listen :: "(string \<Rightarrow> jsval option) \<Rightarrow> AppServer \<Rightarrow> exn + AppServer" where
  "listen JSON_parse srv =
     (case forEach (listen_entry JSON_parse) (routes srv) of
        Inl x \<Rightarrow> Inl x
      | Inr entries \<Rightarrow>
          (let accumulated = swaggerPath srv @ entries;
               layers = app srv @ map bind_route (routes srv);
               n = trigger_count layers
           in Inr (srv\<lparr>routes := [],
                       swaggerPath := [],
                       app := layers
                              @ concat (replicate n [Use ''swaggerUi.serve'', Use ''swaggerUi.setup''])
                              @ [Use ''<anonymous>'', Use ''globalErrorHandler''],
                       assembled := assembled srv @ replicate n accumulated\<rparr>)))"

section \<open>Documentation assembler\<close>

text \<open>\<^verbatim>\<open>a || b\<close>, with the second operand evaluated only when the first is falsy.\<close>

definition js_or :: "jsval \<Rightarrow> (exn + jsval) \<Rightarrow> exn + jsval" where
  "js_or a b = (if truthy a then Inr a else b)"

definition derived_parameters :: "string \<Rightarrow> bool \<Rightarrow> jsval \<Rightarrow> exn + jsval" where
  "derived_parameters location required shape =
     (case object_entries shape of
        Inl x \<Rightarrow> Inl x
      | Inr kvs \<Rightarrow>
          Inr (JArr (map (\<lambda>(key, type).
                            JObj [(''name'', JStr key),
                                  (''in'', JStr location),
                                  (''required'', JBool required),
                                  (''schema'', JObj [(''type'', type)])])
                       kvs)))"

text \<open>The \<^verbatim>\<open>parameters\<close> that \<^verbatim>\<open>apiDoc\<close> computes for one entry.\<close>

definition apiDoc_parameters :: "AppSwagger \<Rightarrow> exn + jsval" where
  "apiDoc_parameters endpoint =
     (case (case sw_detail endpoint of None \<Rightarrow> None | Some d \<Rightarrow> detail_params d) of
        Some ps \<Rightarrow>
          Inr (JArr (map (\<lambda>param.
                            JObj [(''name'', JStr (param_name param)),
                                  (''in'', JStr (param_in param)),
                                  (''required'', JBool (param_required param)),
                                  (''schema'', param_schema param)])
                       ps))
      | None \<Rightarrow>
          (case derived_parameters ''path'' True (sw_params endpoint) of
             Inl x \<Rightarrow> Inl x
           | Inr from_params \<Rightarrow>
               js_or from_params
                 (case derived_parameters ''query'' False (sw_query endpoint) of
                    Inl x \<Rightarrow> Inl x
                  | Inr from_query \<Rightarrow> js_or from_query (Inr (JArr [])))))"

text \<open>The \<^verbatim>\<open>requestBody\<close> that \<^verbatim>\<open>apiDoc\<close> computes for one entry.\<close>

definition apiDoc_requestBody :: "AppSwagger \<Rightarrow> exn + jsval" where
  "apiDoc_requestBody endpoint =
     (case (case sw_detail endpoint of None \<Rightarrow> None | Some d \<Rightarrow> detail_body d) of
        Some b \<Rightarrow> Inr b
      | None \<Rightarrow>
          (case object_entries (sw_body endpoint) of
             Inl x \<Rightarrow> Inl x
           | Inr kvs \<Rightarrow>
               if length (map fst kvs) > 0 then
                 Inr (JObj [(''required'', JBool True),
                            (''content'',
                               JObj [(''application/json'',
                                        JObj [(''schema'',
                                                 JObj [(''type'', JStr ''object''),
                                                       (''properties'',
                                                          JObj (map (\<lambda>(key, type).
                                                                       (key, JObj [(''type'', type)]))
                                                                  kvs))])])])])
               else Inr JUndefined))"

section \<open>Observations\<close>

text \<open>A property of the body that was sent, \<^verbatim>\<open>undefined\<close> when there is none.\<close>

definition body_prop :: "res \<Rightarrow> string \<Rightarrow> jsval" where
  "body_prop r key = (case sent r of Some (JObj ps) \<Rightarrow> get_prop ps key | _ \<Rightarrow> JUndefined)"




text \<open>
  The constructors. The server starts with the middleware that its constructor installs
  (body parsers, metrics, transaction id), given by their names.
\<close>

definition new_AppServer :: "string list \<Rightarrow> AppServer" where
  "new_AppServer names = \<lparr>routes = [], swaggerPath = [], app = map Use names, assembled = []\<rparr>"

definition new_AppRouter :: AppRouter where
  "new_AppRouter = \<lparr>routes = [], swaggerPath = [], router_instance = []\<rparr>"


text \<open>A schema without nested schemas: a string, a number or an unrecognised kind.\<close>

definition leaf :: "zod \<Rightarrow> bool" where
  "leaf s = (case s of ZodArray _ \<Rightarrow> False | ZodObject _ \<Rightarrow> False | _ \<Rightarrow> True)"

section \<open>The sample application\<close>

text \<open>
  The application of \<^verbatim>\<open>src/index.ts\<close>. The source text of a handler is written on one
  line, a single space standing for each line break with its indentation. Its schemas are
  objects with one string field.
\<close>

definition string_field :: "string \<Rightarrow> schema" where
  "string_field key =
     \<lparr>kind = ZodObject [(key, ZodString)],
      parse = (\<lambda>v. case v of
                      JObj ps \<Rightarrow>
                        (case get_prop ps key of
                           JStr _ \<Rightarrow> None
                         | _ \<Rightarrow> Some (ZodError [ZodIssue [JStr key] ''Required''] ''Required''))
                    | _ \<Rightarrow> Some (ZodError [ZodIssue [] ''Expected object'']
                                   ''Expected object''))\<rparr>"

definition paramsSchema :: schema where
  "paramsSchema = string_field ''id''"

definition querySchema :: schema where
  "querySchema = string_field ''username''"

definition bodySchema :: schema where
  "bodySchema = string_field ''content''"

definition no_schemas :: schemas where
  "no_schemas = \<lparr>params = None, body = None, query = None, middleware = None, detail = None\<rparr>"

definition get_profile_handler :: handler where
  "get_profile_handler =
     \<lparr>source = ''async ({ query, res, req }) => { console.log(query.username) return { data: 'profile' } }'',
      run = (\<lambda>ctx. Resolves [(''data'', JStr ''profile'')])\<rparr>"

definition post_profile_handler :: handler where
  "post_profile_handler =
     \<lparr>source = ''async ({ body }) => { return { data: 'profile' } }'',
      run = (\<lambda>ctx. Resolves [(''data'', JStr ''profile'')])\<rparr>"

definition post_profiles_handler :: handler where
  "post_profiles_handler =
     \<lparr>source = ''async ({ body }) => { console.log(body.content) return { data: 'profile' } }'',
      run = (\<lambda>ctx. Resolves [(''data'', JStr ''profile'')])\<rparr>"

definition profile_by_id_handler :: handler where
  "profile_by_id_handler =
     \<lparr>source = ''async ({ params }) => { return { data: { id: params.id } } }'',
      run = (\<lambda>ctx. Resolves [(''data'', JObj [(''id'', get_prop (req_params ctx) ''id'')])])\<rparr>"

definition router_profile_handler :: handler where
  "router_profile_handler =
     \<lparr>source = ''async ({ query }) => { return { data: 'profile' } }'',
      run = (\<lambda>ctx. Resolves [(''data'', JStr ''profile'')])\<rparr>"

definition profile_by_id_detail :: SwaggerDetail where
  "profile_by_id_detail =
     \<lparr>tags = Some [''profile''],
      summary = Some ''Get profile by id'',
      description = Some ''Get profile by id'',
      detail_query = None,
      detail_body = None,
      detail_response =
        Some (JObj [(''success'',
                       JObj [(''type'', JStr ''object''),
                             (''properties'', JObj [(''id'', JObj [(''type'', JStr ''string'')])])]),
                    (''bad request'',
                       JObj [(''type'', JStr ''object''),
                             (''properties'',
                                JObj [(''message'', JObj [(''type'', JStr ''string'')])])])]),
      detail_params =
        Some [\<lparr>param_in = ''path'', param_name = ''id'',
               param_schema = JObj [(''type'', JStr ''string'')], param_required = True\<rparr>]\<rparr>"

definition sample_app :: AppServer where
  "sample_app =
     post ''/profile'' post_profile_handler None
       (get ''/profile'' get_profile_handler (Some (no_schemas\<lparr>query := Some querySchema\<rparr>))
          (use [''SwaggerInitUi'']
             (new_AppServer [''jsonParser'', ''urlencodedParser'', ''metricsMiddleware'',
                             ''<anonymous>''])))"

definition sample_router :: AppRouter where
  "sample_router =
     get ''/profile'' router_profile_handler (Some (no_schemas\<lparr>query := Some querySchema\<rparr>))
       (get ''/profile/:id'' profile_by_id_handler
          (Some (no_schemas\<lparr>params := Some paramsSchema, middleware := Some ''middleware'',
                            detail := Some profile_by_id_detail\<rparr>))
          (post ''/profiles'' post_profiles_handler
             (Some (no_schemas\<lparr>body := Some bodySchema\<rparr>)) new_AppRouter))"

text \<open>Further inputs: an environment, handlers that throw, and a plain request.\<close>

definition sample_env :: env where
  "sample_env =
     \<lparr>development = False,
      stack = (\<lambda>error. ''Error: '' @ error_message error),
      fromZodError = (\<lambda>issues. ''Validation error: ''
                                  @ intercalate ''; '' (map issue_message issues)),
      final_page = (\<lambda>error. ''<pre>Internal Server Error</pre>'')\<rparr>"

definition throwing :: "js_error \<Rightarrow> handler" where
  "throwing error = \<lparr>source = ''async () => { throw error }'', run = (\<lambda>ctx. Rejects error)\<rparr>"


definition expression_handler :: handler where
  "expression_handler =
     \<lparr>source = ''async () => ({ data: 'auth' })'',
      run = (\<lambda>ctx. Resolves [(''data'', JStr ''auth'')])\<rparr>"

definition plain_request :: "object \<Rightarrow> request" where
  "plain_request ps =
     \<lparr>req_params = ps, req_body = JObj [], req_query = JObj [], req_fresh = False\<rparr>"


text \<open>A handler that sets the status of the response itself and then throws.\<close>

definition failing_handler :: "js_error \<Rightarrow> handler" where
  "failing_handler error =
     \<lparr>source = ''async ({ res }) => { res.status(201) throw error }'',
      run = (\<lambda>ctx. WritesThen (res_status 201) (Rejects error))\<rparr>"


text \<open>
  The route \<^verbatim>\<open>GET /profile/:id\<close> with the params schema of the sample and a given handler,
  and a request that binds \<^verbatim>\<open>id\<close>.
\<close>

definition by_id_route :: "handler \<Rightarrow> route" where
  "by_id_route h =
     \<lparr>path = ''/profile/:id'', http_method = GET, handler = h,
      schemas = Some (no_schemas\<lparr>params := Some paramsSchema\<rparr>)\<rparr>"

definition request_with_id :: request where
  "request_with_id = plain_request [(''id'', JStr ''7'')]"





text \<open>A schema with an array inside an object.\<close>

definition nested_schema :: zod where
  "nested_schema = ZodObject [(''tags'', ZodArray ZodString)]"

section \<open>Properties of the helpers\<close>



text \<open>A response with a body is sent when nothing stands against it.\<close>

lemma res_send_plain:
  assumes "sent r = None"
    and "100 \<le> statusCode r" and "statusCode r \<le> 999"
    and "\<not> (req_fresh req \<and> 200 \<le> statusCode r \<and> statusCode r < 300)"
  shows "res_send req data r =
           Inr \<lparr>statusCode = statusCode r,
                sent = Some (if strips_body (statusCode r) then JUndefined else data)\<rparr>"
  using assms by (auto simp: res_send_def Let_def)

text \<open>When both validations pass, the response is decided by the handler.\<close>

lemma serve_rejects:
  assumes "validateRequest req (schemas rt) = None"
    and "validateParams req (createZodSchema (path rt)) = None"
    and "settles (run (handler rt) req) = Rejects error"
    and "\<not> passes_on error"
  shows "serve e rt req =
     (case globalErrorHandler e error req (written (run (handler rt) req) new_res) of
        Replied r' \<Rightarrow> r'
      | NextError thrown r' \<Rightarrow> finalhandler e thrown r'
      | NoReply r' \<Rightarrow> r')"
  using assms
  by (simp add: serve_def createHandler_def and_then_def preRequest_def)

text \<open>The global error handler answers with the status and the body that it computes.\<close>

lemma globalErrorHandler_replies:
  assumes "sent r = None"
    and "instanceof_Error error"
    and "status = (if str_includes (error_message error) ''not found'' then 404
                   else case error of HttpError code _ \<Rightarrow> code | _ \<Rightarrow> 500)"
    and "100 \<le> status" and "status \<le> 999"
    and "\<not> (req_fresh req \<and> 200 \<le> status \<and> status < 300)"
  shows "globalErrorHandler e error req r =
           Replied \<lparr>statusCode = status,
                    sent = Some (if strips_body status then JUndefined
                                 else JObj [(''statusCode'', JNum status),
                                            (''message'', JStr (error_message error)),
                                            (''success'', JBool False),
                                            (''data'', JNull),
                                            (''traceStack'',
                                               if development e then JStr (stack e error)
                                               else JUndefined)])\<rparr>"
proof -
  let ?r = "res_status status r"
  have "sent ?r = None" and "statusCode ?r = status"
    using assms(1) by (simp_all add: res_status_def)
  then have "res_send req data ?r =
           Inr \<lparr>statusCode = status,
                sent = Some (if strips_body status then JUndefined else data)\<rparr>" for data
    using assms(4,5,6) res_send_plain [of ?r req data] by simp
  moreover have "(case error of Thrown v \<Rightarrow> ''An unknown error occurred, '' @ js_String v
                  | _ \<Rightarrow> error_message error) = error_message error"
    using assms(2) by (cases error) simp_all
  ultimately show ?thesis
    using assms(2,3) by (simp add: globalErrorHandler_def Let_def)
qed


lemma send_error_status:
  assumes "sent r = None" and "400 \<le> code" and "code \<le> 999"
  shows "res_send req data (res_status code r) = Inr \<lparr>statusCode = code, sent = Some data\<rparr>"
  using assms by (simp add: res_send_def res_status_def strips_body_def Let_def)

lemma sent_new_res: "sent new_res = None"
  by (simp add: new_res_def)

lemma validateParams_missing:
  "(key, v) \<in> set schemaObject \<Longrightarrow> \<not> truthy (get_prop (req_params req) key) \<Longrightarrow>
   \<exists>name. validateParams req schemaObject = Some (Error name)"
  by (induction schemaObject) auto

text \<open>
  On a route without schemas, a parameter of the path template that the request binds to
  \<^verbatim>\<open>undefined\<close> or to the empty string ends in status 500, whatever the path and the
  handler are.
\<close>

lemma missing_parameter_general:
  assumes "schemas rt = None"
    and "(key, v) \<in> set (createZodSchema (path rt))"
    and "map_of (req_params req) key = Some bound"
    and "\<not> truthy bound"
  shows "statusCode (serve e rt req) = 500 \<and>
         body_prop (serve e rt req) ''message'' = JStr ''Internal server error''"
proof -
  from assms(3,4) have "\<not> truthy (get_prop (req_params req) key)"
    by (simp add: get_prop_def)
  with validateParams_missing [OF assms(2)] obtain name where
    "validateParams req (createZodSchema (path rt)) = Some (Error name)" by blast
  moreover from assms(2) have "createZodSchema (path rt) \<noteq> []" by auto
  ultimately show ?thesis
    using assms(1)
    by (simp add: serve_def createHandler_def validateRequest_def and_then_def handleError_def
        send_error_status sent_new_res body_prop_def get_prop_def)
qed

lemma items_schemaObject: "createZodSchema ''/items/:id?'' = [(''id'', JStr [])]"
  by code_simp

lemma sample_request_facts:
  "validateRequest request_with_id (schemas (by_id_route h)) = None"
  "validateParams request_with_id (createZodSchema (path (by_id_route h))) = None"
  "\<not> str_includes ''boom'' ''not found''"
  "\<not> str_includes ''forbidden'' ''not found''"
  "str_includes ''profile not found'' ''not found''"
  by code_simp+



















lemma zodToSwagger_is_object: "\<exists>ps. zodToSwagger s = JObj ps"
  by (cases s) simp_all

lemma doc_shape_zodToSwagger: "doc_shape (zodToSwagger s)"
proof (induction s rule: zodToSwagger.induct)
  case (3 t)
  obtain ps where "zodToSwagger t = JObj ps"
    using zodToSwagger_is_object by blast
  with 3 show ?case by simp
next
  case (4 shape)
  then show ?case by (auto simp: list_all_iff)
qed simp_all

lemma leaf_example: "leaf s \<Longrightarrow> JObj [(''type'', zodToObject s)] = zodToSwagger s"
  by (cases s) (simp_all add: leaf_def)

lemma no_return: "jsonString expression_handler = Inl TypeError"
  by code_simp

lemma get_profile_text: "jsonString get_profile_handler = Inr '' { \"data\": 'profile' } }''"
  by code_simp

section \<open>The claims\<close>

subsection \<open>C1: a missing path parameter\<close>

text \<open>
  C1 says that on a route whose path template has dynamic parameters and that declares no
  params schema, a request that binds no value to one of them is answered with status 400
  and a field-path reference to the parameter. The code answers with status 500: for the
  route \<^verbatim>\<open>GET /items/:id?\<close> without schemas and the request \<^verbatim>\<open>GET /items\<close>, for which Express
  sets the parameter \<^verbatim>\<open>id\<close> to \<^verbatim>\<open>undefined\<close>, \<^verbatim>\<open>validateParams\<close> throws a plain \<^verbatim>\<open>Error\<close>,
  which \<^verbatim>\<open>handleError\<close> turns into the body
  \<^verbatim>\<open>{success: false, message: 'Internal server error', traceStack}\<close>; the body has no
  \<^verbatim>\<open>details\<close>. This holds for every environment and every handler.
\<close>

theorem missing_parameter_500:
  "serve e \<lparr>path = ''/items/:id?'', http_method = GET, handler = h, schemas = None\<rparr>
     (plain_request [(''id'', JUndefined)])
   = \<lparr>statusCode = 500,
      sent = Some (JObj [(''success'', JBool False),
                         (''message'', JStr ''Internal server error''),
                         (''traceStack'',
                            JStr (stack e (Error ''Parameter 'id' is required'')))])\<rparr>"
  by (simp add: serve_def items_schemaObject createHandler_def validateRequest_def and_then_def
      plain_request_def get_prop_def handleError_def send_error_status sent_new_res)

subsection \<open>C2: response-shape inference that raises\<close>

text \<open>
  C2 says that response-shape inference yields an empty object and never raises, on the
  mounting path and on the listen path. In the code both paths raise a TypeError for a
  handler whose source has no \<^verbatim>\<open>return\<close> (an arrow function with an expression body), and
  \<^verbatim>\<open>listen\<close> raises a SyntaxError whenever \<^verbatim>\<open>JSON.parse\<close> rejects the inferred text, as it
  does for the first route of the sample application, while \<^verbatim>\<open>router\<close> yields the empty
  object for the same handler. The parser is arbitrary, except that in the last two
  statements it rejects the one text named there.
\<close>

theorem inference_raises:
  "router JSON_parse prefix (get ''/auth'' expression_handler None new_AppRouter) mws srv
     = Inl TypeError \<and>
   listen JSON_parse (get ''/auth'' expression_handler None (new_AppServer names))
     = Inl TypeError \<and>
   listen (JSON_parse('' { \"data\": 'profile' } }'' := None)) sample_app = Inl SyntaxError \<and>
   router_entry (JSON_parse('' { \"data\": 'profile' } }'' := None)) ''/api''
       \<lparr>path = ''/profile'', http_method = GET, handler = get_profile_handler, schemas = None\<rparr>
     = Inr (swagger_entry ''/api/profile''
         \<lparr>path = ''/profile'', http_method = GET, handler = get_profile_handler, schemas = None\<rparr>
         (JObj []))"
  by (simp add: router_def listen_def get_def post_def addRoute_def new_AppRouter_def
      new_AppServer_def router_entry_def listen_entry_def no_return get_profile_text
      sample_app_def use_def parseJson_def)

subsection \<open>C3: what a mount clears\<close>

text \<open>
  C3 says that after \<^verbatim>\<open>router(prefix, subRouter)\<close> the route list of the sub-router is
  empty while the routes declared on the server stay registered. In the code it is the
  other way round: on the sample application, which has declared \<^verbatim>\<open>GET /profile\<close> and
  \<^verbatim>\<open>POST /profile\<close> on the server, the mount empties the route list of the server and
  leaves the three routes of the sub-router in place.
\<close>

theorem mount_clears_server_routes:
  "map path (routes sample_app) = [''/profile'', ''/profile''] \<and>
   (case router JSON_parse ''/api'' sample_router [] sample_app of
      Inl x \<Rightarrow> None
    | Inr (srv', sub') \<Rightarrow> Some (map path (routes srv'), map path (routes sub')))
   = Some ([], [''/profiles'', ''/profile/:id'', ''/profile''])"
  by code_simp

subsection \<open>C4: an error thrown by the handler\<close>

text \<open>
  C4, as amended: when both validations pass and the handler throws or rejects with an
  \<^verbatim>\<open>Error\<close> that is not an \<^verbatim>\<open>HttpError\<close> and whose message does not contain
  \<^verbatim>\<open>not found\<close>, then, unless the handler has sent a response itself before, the response
  has status 500, whatever status the handler has set, \<^verbatim>\<open>success: false\<close> and the message
  of the error itself; the trace stack is attached only in development mode.
\<close>

theorem handler_error_own_message:
  assumes "validateRequest req (schemas rt) = None"
    and "validateParams req (createZodSchema (path rt)) = None"
    and "settles (run (handler rt) req) = Rejects (Error m)"
    and "sent (written (run (handler rt) req) new_res) = None"
    and "\<not> str_includes m ''not found''"
  shows "statusCode (serve e rt req) = 500 \<and>
         body_prop (serve e rt req) ''success'' = JBool False \<and>
         body_prop (serve e rt req) ''message'' = JStr m \<and>
         body_prop (serve e rt req) ''traceStack'' =
           (if development e then JStr (stack e (Error m)) else JUndefined)"
proof -
  have "serve e rt req =
     (case globalErrorHandler e (Error m) req (written (run (handler rt) req) new_res) of
        Replied r' \<Rightarrow> r'
      | NextError thrown r' \<Rightarrow> finalhandler e thrown r'
      | NoReply r' \<Rightarrow> r')"
    using assms(1,2,3) by (simp add: serve_rejects)
  moreover have "globalErrorHandler e (Error m) req (written (run (handler rt) req) new_res) =
           Replied \<lparr>statusCode = 500,
                    sent = Some (if strips_body 500 then JUndefined
                                 else JObj [(''statusCode'', JNum 500),
                                            (''message'', JStr (error_message (Error m))),
                                            (''success'', JBool False),
                                            (''data'', JNull),
                                            (''traceStack'',
                                               if development e then JStr (stack e (Error m))
                                               else JUndefined)])\<rparr>"
    using assms(4,5) by (intro globalErrorHandler_replies) simp_all
  ultimately show ?thesis
    by (simp add: strips_body_def body_prop_def get_prop_def)
qed

theorem handler_error_own_message_witness:
  "statusCode (serve sample_env (by_id_route (throwing (Error ''boom''))) request_with_id) = 500 \<and>
   body_prop (serve sample_env (by_id_route (throwing (Error ''boom''))) request_with_id)
     ''message'' = JStr ''boom'' \<and>
   statusCode (serve sample_env (by_id_route (failing_handler (Error ''boom'')))
       request_with_id) = 500 \<and>
   body_prop (serve sample_env (by_id_route (failing_handler (Error ''boom'')))
       request_with_id) ''message'' = JStr ''boom''"
  using handler_error_own_message [of request_with_id "by_id_route (throwing (Error ''boom''))"
      "''boom''" sample_env]
    handler_error_own_message [of request_with_id
      "by_id_route (failing_handler (Error ''boom''))" "''boom''" sample_env]
  by (simp add: sample_request_facts)
     (simp add: by_id_route_def throwing_def failing_handler_def new_res_def res_status_def)

text \<open>
  C4 as stated fails: a handler that throws \<^verbatim>\<open>new Error('boom')\<close> is answered with the
  message \<^verbatim>\<open>boom\<close>, not with the fixed message, and outside development mode without a
  trace stack.
\<close>

theorem handler_error_counterexample:
  "body_prop (serve sample_env (by_id_route (throwing (Error ''boom''))) request_with_id)
     ''message'' = JStr ''boom'' \<and>
   JStr ''boom'' \<noteq> JStr ''Internal server error'' \<and>
   body_prop (serve sample_env (by_id_route (throwing (Error ''boom''))) request_with_id)
     ''traceStack'' = JUndefined"
  by code_simp

subsection \<open>C5: a declared status code\<close>




subsection \<open>C6: the accumulated documentation entries\<close>




subsection \<open>C7: parameter descriptors\<close>

text \<open>
  C7 says that, without explicit detail parameters and without path parameters, the
  parameter descriptors are derived from the keys of the query schema. In the code the
  list derived from the path parameters is an array, which is truthy even when it is
  empty, so the alternative after \<^verbatim>\<open>||\<close> is never taken: for \<^verbatim>\<open>GET /profile\<close> of the sample
  application, whose query schema has the key \<^verbatim>\<open>username\<close>, the parameters are the empty
  list, while the list derived from the query schema would hold one descriptor.
\<close>

theorem query_parameters_dropped:
  "apiDoc_parameters
     (swagger_entry ''/profile''
        \<lparr>path = ''/profile'', http_method = GET, handler = get_profile_handler,
         schemas = Some (no_schemas\<lparr>query := Some querySchema\<rparr>)\<rparr> response)
   = Inr (JArr []) \<and>
   derived_parameters ''query'' False
     (sw_query (swagger_entry ''/profile''
        \<lparr>path = ''/profile'', http_method = GET, handler = get_profile_handler,
         schemas = Some (no_schemas\<lparr>query := Some querySchema\<rparr>)\<rparr> response))
   = Inr (JArr [JObj [(''name'', JStr ''username''), (''in'', JStr ''query''),
                      (''required'', JBool False),
                      (''schema'', JObj [(''type'', JStr ''string'')])]])"
  by code_simp

subsection \<open>C8: the converter is total\<close>

text \<open>
  C8: for every schema, however deeply objects and arrays are nested in it, the
  conversion to a documentation shape returns a well-formed documentation shape (it is a
  total function with no exceptional result), and a schema of an unrecognised kind, like
  any value that is no schema, yields \<^verbatim>\<open>{type: 'unknown'}\<close>.
\<close>

theorem zodToSwagger_total:
  "doc_shape (zodToSwagger s) \<and>
   zodToSwagger (ZodOther k) = JObj [(''type'', JStr ''unknown'')] \<and>
   zodToSwagger (Plain v) = JObj [(''type'', JStr ''unknown'')]"
  using doc_shape_zodToSwagger by simp

subsection \<open>C9: from the example object back to a documentation shape\<close>

text \<open>
  C9, as amended: for every object schema whose fields are all strings, numbers or of an
  unrecognised kind, and which has at least one field that is not named \<^verbatim>\<open>__proto__\<close>, the
  schema that the Documentation Assembler derives for the request body from the example
  object of the schema is the documentation shape that the converter derives from the
  schema directly.
\<close>

theorem flat_object_roundtrip:
  assumes "filter (\<lambda>(key, s). key \<noteq> ''__proto__'') shape \<noteq> []"
    and "list_all (\<lambda>(key, s). leaf s) shape"
    and "(case sw_detail endpoint of None \<Rightarrow> None | Some d \<Rightarrow> detail_body d) = None"
    and "sw_body endpoint = zodToObject (ZodObject shape)"
  shows "apiDoc_requestBody endpoint =
           Inr (JObj [(''required'', JBool True),
                      (''content'',
                         JObj [(''application/json'',
                                  JObj [(''schema'', zodToSwagger (ZodObject shape))])])])"
  using assms
  by (auto simp: apiDoc_requestBody_def list_all_iff leaf_example)

theorem flat_object_roundtrip_witness:
  "apiDoc_requestBody
     (swagger_entry ''/api/profiles''
        \<lparr>path = ''/profiles'', http_method = POST, handler = post_profiles_handler,
         schemas = Some (no_schemas\<lparr>body := Some bodySchema\<rparr>)\<rparr> (JObj []))
   = Inr (JObj [(''required'', JBool True),
                (''content'',
                   JObj [(''application/json'',
                            JObj [(''schema'',
                                     JObj [(''type'', JStr ''object''),
                                           (''properties'',
                                              JObj [(''content'',
                                                       JObj [(''type'', JStr ''string'')])])])])])])"
  using flat_object_roundtrip [of "[(''content'', ZodString)]"
      "swagger_entry ''/api/profiles''
        \<lparr>path = ''/profiles'', http_method = POST, handler = post_profiles_handler,
         schemas = Some (no_schemas\<lparr>body := Some bodySchema\<rparr>)\<rparr> (JObj [])"]
  by (simp add: swagger_entry_def no_schemas_def bodySchema_def string_field_def example_of_def
      leaf_def)

text \<open>
  C9 as stated fails for a schema with an array inside an object: either converter
  applied to the example object yields its answer for an unknown kind, and the schema
  that the Documentation Assembler derives from the example object differs from the shape
  derived directly. And for a schema whose only field is named \<^verbatim>\<open>__proto__\<close> the example
  object is empty, so that the Documentation Assembler derives no request body at all.
\<close>

theorem roundtrip_counterexample:
  "zodToSwagger (Plain (zodToObject nested_schema)) \<noteq> zodToSwagger nested_schema \<and>
   zodToObject (Plain (zodToObject nested_schema)) \<noteq> zodToObject nested_schema \<and>
   apiDoc_requestBody
     \<lparr>sw_path = ''/api/posts'', sw_method = POST, sw_detail = None,
      sw_body = zodToObject nested_schema, sw_query = JObj [], sw_params = JObj [],
      sw_response = JObj []\<rparr>
   \<noteq> Inr (JObj [(''required'', JBool True),
                (''content'',
                   JObj [(''application/json'',
                            JObj [(''schema'', zodToSwagger nested_schema)])])]) \<and>
   zodToObject (ZodObject [(''__proto__'', ZodString)]) = JObj [] \<and>
   apiDoc_requestBody
     \<lparr>sw_path = ''/api/posts'', sw_method = POST, sw_detail = None,
      sw_body = zodToObject (ZodObject [(''__proto__'', ZodString)]), sw_query = JObj [],
      sw_params = JObj [], sw_response = JObj []\<rparr>
   = Inr JUndefined"
  by code_simp

subsection \<open>C10: the status of a successful response\<close>




end
